theory Spec2Isabelle
  imports Main "HOL-Library.Sublist"
begin

section \<open>Python values and library functions used by the templates\<close>

text \<open>
  The templates are Python classes. Arguments are modelled at their annotated types:
  \<open>str\<close> is \<open>string\<close>, an argument that may be \<open>None\<close> is an \<open>option\<close>,
  \<open>Union[str, List[str]]\<close> is the datatype below, and \<open>int\<close> is \<open>int\<close>.
\<close>

datatype str_or_list = Str string | StrList "string list"

text \<open>\<open>sep.join(xs)\<close>.\<close>

fun py_join :: "string \<Rightarrow> string list \<Rightarrow> string" where
  "py_join sep [] = []"
| "py_join sep [x] = x"
| "py_join sep (x # y # ys) = x @ sep @ py_join sep (y # ys)"

text \<open>\<open>sep.join(q) if isinstance(q, list) else q\<close>.\<close>

definition join_if_list :: "string \<Rightarrow> str_or_list \<Rightarrow> string" where
  "join_if_list sep q = (case q of StrList xs \<Rightarrow> py_join sep xs | Str s \<Rightarrow> s)"

text \<open>
  \<open>os.path.join(a, b)\<close> of \<open>posixpath\<close> for two components: an absolute \<open>b\<close>
  replaces \<open>a\<close>; an empty \<open>a\<close>, or one that ends with the separator, is extended
  by \<open>b\<close> alone; otherwise a separator is put between them.
\<close>

definition os_path_join :: "string \<Rightarrow> string \<Rightarrow> string" where
  "os_path_join a b =
     (if b \<noteq> [] \<and> hd b = CHR ''/'' then b
      else if a = [] \<or> last a = CHR ''/'' then a @ b
      else a @ ''/'' @ b)"

text \<open>\<open>str(n)\<close> for an \<open>int\<close>: the decimal rendering, with a minus sign when negative.\<close>

definition digit_char :: "nat \<Rightarrow> char" where
  "digit_char d = ''0123456789'' ! d"

text \<open>The characters that \<open>str\<close> of a natural number is made of.\<close>

definition digits :: "char set" where
  "digits = set ''0123456789''"

function str_nat :: "nat \<Rightarrow> string" where
  "str_nat n = (if n < 10 then [digit_char n] else str_nat (n div 10) @ [digit_char (n mod 10)])"
  by pat_completeness auto
termination
  by (relation "measure id") auto

text \<open>The equation of \<open>str_nat\<close> is applied by hand: it rewrites its own right-hand side.\<close>

declare str_nat.simps [simp del]

definition str_int :: "int \<Rightarrow> string" where
  "str_int i = (if i < 0 then CHR ''-'' # str_nat (nat (- i)) else str_nat (nat i))"

text \<open>\<open>x or d\<close> for an \<open>int\<close> that may be \<open>None\<close>: \<open>None\<close> and \<open>0\<close> are falsy.\<close>

definition int_or :: "int option \<Rightarrow> int \<Rightarrow> int" where
  "int_or x d = (case x of None \<Rightarrow> d | Some n \<Rightarrow> if n = 0 then d else n)"

text \<open>\<open>x or d\<close> for a \<open>str\<close> that may be \<open>None\<close>: \<open>None\<close> and \<open>""\<close> are falsy.\<close>

definition str_or :: "string option \<Rightarrow> string \<Rightarrow> string" where
  "str_or x d = (case x of None \<Rightarrow> d | Some s \<Rightarrow> if s = [] then d else s)"

text \<open>\<open>str(x)\<close> for a \<open>str\<close> that may be \<open>None\<close>, as an f-string renders it.\<close>

definition str_opt :: "string option \<Rightarrow> string" where
  "str_opt x = (case x of None \<Rightarrow> ''None'' | Some s \<Rightarrow> s)"

text \<open>
  Exceptions. A \<open>TypeError\<close> of the call protocol carries its cause and the parameter
  or keyword concerned (the wording of its message differs between interpreter
  versions); an \<open>Exception\<close> carries its message.
\<close>

datatype type_error = MissingArgument string | UnexpectedKeyword string | MultipleValues string

datatype pyerror = TypeError type_error | Exception string

section \<open>Attributes of the template instances\<close>

text \<open>
  \<open>send_job_emails\<close> and \<open>queues\<close> are attributes kept by the base class
  \<open>SlurmSingularityTemplate\<close> (not part of this repository); the methods below only
  read them.
\<close>

record PeterMac_attrs =
  max_workflow_time :: "int option"
  janis_memory_mb :: "int option"
  email_format :: "string option"

record PeterMac_self = PeterMac_attrs +
  send_job_emails :: bool
  pm_queues :: str_or_list

record Pawsey_self =
  submission_queue :: "string option"
  queues :: str_or_list

text \<open>The part of the configuration object that \<open>submit_detatched_resume\<close> reads.\<close>

record notifications =
  email :: "string option"

record config =
  notifications :: "notifications option"

section \<open>The argument vector of \<open>submit_detatched_resume\<close>\<close>

text \<open>
  \<open>config and config.notifications and config.notifications.email\<close>: the address when
  every link of the chain is truthy.
\<close>

definition notification_email :: "config option \<Rightarrow> string option" where
  "notification_email cfg =
     (case cfg of None \<Rightarrow> None
      | Some c \<Rightarrow> (case notifications c of None \<Rightarrow> None
          | Some n \<Rightarrow> (case email n of None \<Rightarrow> None
              | Some e \<Rightarrow> if e = [] then None else Some e)))"

text \<open>\<open>PeterMacTemplate.submit_detatched_resume\<close>, up to the call of the base class.\<close>

definition PeterMac_newcommand ::
  "PeterMac_self \<Rightarrow> string \<Rightarrow> str_or_list \<Rightarrow> string \<Rightarrow> config option \<Rightarrow> string list" where
  "PeterMac_newcommand self wid command logsdir cfg =
     (let q = Str ''janis'';
          jq = join_if_list '', '' q;
          jc = join_if_list '' '' command;
          newcommand =
            [''sbatch'', ''-p'', jq, ''-J'', ''janis-'' @ wid,
             ''--time'', str_int (int_or (max_workflow_time self) 14400),
             ''-o'', os_path_join logsdir ''slurm.stdout'',
             ''-e'', os_path_join logsdir ''slurm.stderr''];
          newcommand =
            (if send_job_emails self
             then (case notification_email cfg of
                     Some e \<Rightarrow> newcommand @ [''--mail-user'', e, ''--mail-type'', ''END'']
                   | None \<Rightarrow> newcommand)
             else newcommand);
          newcommand =
            (case janis_memory_mb self of
               Some m \<Rightarrow> if m \<noteq> 0 then newcommand @ [''--mem'', str_int m] else newcommand
             | None \<Rightarrow> newcommand)
      in newcommand @ [''--wrap'', jc])"

text \<open>\<open>PeterMacDisconnectedTemplate.submit_detatched_resume\<close>, up to the final call.\<close>

definition PeterMacDisconnected_newcommand ::
  "PeterMac_self \<Rightarrow> string \<Rightarrow> str_or_list \<Rightarrow> string \<Rightarrow> string list" where
  "PeterMacDisconnected_newcommand self wid command logsdir =
     (let q = Str ''janis'';
          jq = join_if_list '', '' q;
          jc = join_if_list '' '' command
      in [''sbatch'', ''-p'', jq, ''-J'', ''janis-'' @ wid,
          ''--time'', str_int (int_or (max_workflow_time self) 1440),
          ''-o'', os_path_join logsdir ''slurm.stdout'',
          ''-e'', os_path_join logsdir ''slurm.stderr'',
          ''--wrap'', jc])"

text \<open>\<open>PawseyDisconnectedTemplate.submit_detatched_resume\<close>, up to the final call.\<close>

definition SUBMISSION_LENGTH :: string where
  "SUBMISSION_LENGTH = ''4-00:00:00''"

definition Pawsey_newcommand ::
  "Pawsey_self \<Rightarrow> string \<Rightarrow> str_or_list \<Rightarrow> string \<Rightarrow> string list" where
  "Pawsey_newcommand self wid command logsdir =
     (let q = queues self;
          jq = join_if_list '', '' q;
          jc = join_if_list '' '' command
      in [''sbatch'', ''-p'', str_or (submission_queue self) jq, ''-J'', ''janis-'' @ wid,
          ''--time'', SUBMISSION_LENGTH,
          ''-o'', os_path_join logsdir ''slurm.stdout'',
          ''-e'', os_path_join logsdir ''slurm.stderr'',
          ''--wrap'', jc])"

section \<open>The constructors\<close>

subsection \<open>\<open>PawseyTemplate.__init__\<close>\<close>

record Pawsey_args =
  containerDir :: string
  executionDir :: "string option"
  pa_queues :: str_or_list
  singularityVersion :: "string option"
  catchSlurmErrors :: bool
  sendSlurmEmails :: bool
  singularityBuildInstructions :: string
  pa_max_cores :: int
  pa_max_ram :: int

text \<open>
  The keyword arguments that \<open>PawseyTemplate.__init__\<close> forwards to
  \<open>SlurmSingularityTemplate.__init__\<close>. The base class is not part of this
  repository: the call is the result of the model.
\<close>

record Slurm_init_camel =
  sc_executionDir :: "string option"
  sc_queues :: str_or_list
  sc_containerDir :: string
  sc_catchSlurmErrors :: bool
  sc_sendSlurmEmails :: bool
  sc_buildInstructions :: string
  sc_singularityLoadInstructions :: string
  sc_max_cores :: int
  sc_max_ram :: int

definition PawseyTemplate_init :: "Pawsey_args \<Rightarrow> Slurm_init_camel" where
  "PawseyTemplate_init a =
     (let singload = ''module load singularity'';
          singload = (case singularityVersion a of
                        Some v \<Rightarrow> if v \<noteq> [] then singload @ ''/'' @ v else singload
                      | None \<Rightarrow> singload)
      in \<lparr>sc_executionDir = executionDir a,
          sc_queues = pa_queues a,
          sc_containerDir = containerDir a,
          sc_catchSlurmErrors = catchSlurmErrors a,
          sc_sendSlurmEmails = sendSlurmEmails a,
          sc_buildInstructions = singularityBuildInstructions a,
          sc_singularityLoadInstructions = singload,
          sc_max_cores = pa_max_cores a,
          sc_max_ram = pa_max_ram a\<rparr>)"

text \<open>
  A call of \<open>PawseyTemplate.__init__\<close> by keywords: \<open>kw_names\<close> are the keywords of
  the call, in order, and each field holds the value given for the parameter of that
  name (\<open>None\<close> when the call does not give it; for \<open>executionDir\<close>, whose default
  is \<open>None\<close>, omitting it and passing \<open>None\<close> are the same). The interpreter
  refuses a keyword that is not a parameter, then a required parameter without a value;
  the other parameters take the defaults of the signature.
\<close>

record Pawsey_kw =
  kw_names :: "string list"
  kw_containerDir :: "string option"
  kw_executionDir :: "string option"
  kw_queues :: "str_or_list option"
  kw_singularityVersion :: "string option option"
  kw_catchSlurmErrors :: "bool option"
  kw_sendSlurmEmails :: "bool option"
  kw_singularityBuildInstructions :: "string option"
  kw_max_cores :: "int option"
  kw_max_ram :: "int option"

definition PawseyTemplate_params :: "string list" where
  "PawseyTemplate_params =
     [''containerDir'', ''executionDir'', ''queues'', ''singularityVersion'',
      ''catchSlurmErrors'', ''sendSlurmEmails'', ''singularityBuildInstructions'',
      ''max_cores'', ''max_ram'']"

definition or_default :: "'a option \<Rightarrow> 'a \<Rightarrow> 'a" where
  "or_default x d = (case x of None \<Rightarrow> d | Some v \<Rightarrow> v)"

definition PawseyTemplate_call :: "Pawsey_kw \<Rightarrow> pyerror + Slurm_init_camel" where
  "PawseyTemplate_call kw =
     (case filter (\<lambda>k. k \<notin> set PawseyTemplate_params) (kw_names kw) of
        k # _ \<Rightarrow> Inl (TypeError (UnexpectedKeyword k))
      | [] \<Rightarrow>
         (case kw_containerDir kw of
            None \<Rightarrow> Inl (TypeError (MissingArgument ''containerDir''))
          | Some cd \<Rightarrow>
              Inr (PawseyTemplate_init
                \<lparr>containerDir = cd,
                 executionDir = kw_executionDir kw,
                 pa_queues = or_default (kw_queues kw) (Str ''workq''),
                 singularityVersion = or_default (kw_singularityVersion kw) (Some ''3.3.0''),
                 catchSlurmErrors = or_default (kw_catchSlurmErrors kw) True,
                 sendSlurmEmails = or_default (kw_sendSlurmEmails kw) True,
                 singularityBuildInstructions =
                   or_default (kw_singularityBuildInstructions kw)
                     ''singularity pull $image docker://${docker}'',
                 pa_max_cores = or_default (kw_max_cores kw) 28,
                 pa_max_ram = or_default (kw_max_ram kw) 128\<rparr>)))"

text \<open>A call without keywords.\<close>

definition Pawsey_no_kw :: Pawsey_kw where
  "Pawsey_no_kw =
     \<lparr>kw_names = [], kw_containerDir = None, kw_executionDir = None, kw_queues = None,
      kw_singularityVersion = None, kw_catchSlurmErrors = None, kw_sendSlurmEmails = None,
      kw_singularityBuildInstructions = None, kw_max_cores = None, kw_max_ram = None\<rparr>"

subsection \<open>\<open>PawseyDisconnectedTemplate.__init__\<close>\<close>

record PawseyDisconnected_args =
  pd_executionDir :: string
  pd_containerDir :: string
  pd_queues :: str_or_list
  pd_submissionQueue :: "string option"
  pd_singularityVersion :: "string option"
  pd_catchSlurmErrors :: bool
  pd_sendSlurmEmails :: bool
  pd_singularityBuildInstructions :: string
  pd_max_cores :: int
  pd_max_ram :: int

text \<open>
  The constructor stores the submission queue and calls
  \<open>super().__init__(executionDir=executionDir)\<close>. Its result is the stored attribute
  with the call forwarded to the base class, or the exception raised.
\<close>

definition PawseyDisconnectedTemplate_init ::
  "PawseyDisconnected_args \<Rightarrow> pyerror + (string option \<times> Slurm_init_camel)" where
  "PawseyDisconnectedTemplate_init a =
     (let self_submission_queue = pd_submissionQueue a
      in case PawseyTemplate_call
                (Pawsey_no_kw\<lparr>kw_names := [''executionDir''],
                               kw_executionDir := Some (pd_executionDir a)\<rparr>) of
           Inl e \<Rightarrow> Inl e
         | Inr base \<Rightarrow> Inr (self_submission_queue, base))"

subsection \<open>\<open>PeterMacTemplate.__init__\<close>\<close>

record PeterMac_args =
  intermediate_execution_dir :: "string option"
  container_dir :: string
  pm_arg_queues :: str_or_list
  singularity_version :: "string option"
  pm_arg_send_job_emails :: bool
  catch_slurm_errors :: bool
  singularity_build_instructions :: "string option"
  max_cores :: int
  max_ram :: int
  pm_arg_max_workflow_time :: "int option"
  pm_arg_janis_memory_mb :: "int option"
  pm_arg_email_format :: "string option"

record Slurm_init_snake =
  ss_mail_program :: string
  ss_intermediate_execution_dir :: "string option"
  ss_container_dir :: string
  ss_queues :: string
  ss_send_job_emails :: bool
  ss_catch_slurm_errors :: bool
  ss_build_instructions :: string
  ss_singularity_load_instructions :: string
  ss_max_cores :: int
  ss_max_ram :: int
  ss_can_run_in_foreground :: bool
  ss_run_in_background :: bool

definition expected_email_format :: "string option set" where
  "expected_email_format = {None, Some ''molpath''}"

text \<open>\<open>f"'{o}'"\<close>.\<close>

definition quoted :: "string \<Rightarrow> string" where
  "quoted s = [CHR 0x27] @ s @ [CHR 0x27]"

text \<open>
  The default build instructions: an f-string over two line continuations, so that each
  continued line contributes its four leading blanks.
\<close>

definition default_build_instructions :: "string \<Rightarrow> string \<Rightarrow> string" where
  "default_build_instructions joined_queued cdir =
     ''sbatch -p '' @ joined_queued @ '' --wait '' @
     ''    --wrap 'unset SINGULARITY_TMPDIR && docker_subbed=$(sed -e 's/[^A-Za-z0-9._-]/_/g' <<< ${docker}) '' @
     ''    && image='' @ cdir @ ''/$docker_subbed.sif && singularity pull $image docker://${docker}'' @ [CHR 0x27]"

text \<open>
  The message of the exception lists the elements of the set
  \<open>expected_email_format\<close> in the order in which the set iterates. That order depends
  on the hashes of the elements, which change from one run of the interpreter to the
  next, so it is a parameter of the model: \<open>ord\<close>, a list of the elements of the set.
\<close>

definition PeterMacTemplate_init ::
  "string option list \<Rightarrow> PeterMac_args \<Rightarrow> pyerror + (PeterMac_attrs \<times> Slurm_init_snake)" where
  "PeterMacTemplate_init ord a =
     (let singload = ''module load singularity'';
          singload = (case singularity_version a of
                        Some v \<Rightarrow> if v \<noteq> [] then singload @ ''/'' @ v else singload
                      | None \<Rightarrow> singload);
          joined_queued = join_if_list '','' (pm_arg_queues a);
          build = (case singularity_build_instructions a of
                     Some b \<Rightarrow> if b \<noteq> [] then b
                               else default_build_instructions joined_queued (container_dir a)
                   | None \<Rightarrow> default_build_instructions joined_queued (container_dir a))
      in if pm_arg_email_format a \<notin> expected_email_format
         then (let valid_options_formatted = py_join '', '' (map (\<lambda>x. quoted (str_opt x)) ord)
               in Inl (Exception
                    (''Argument email_format: invalid choice: '' @
                     quoted (str_opt (pm_arg_email_format a)) @
                     '' (choose from '' @ valid_options_formatted @ '')'')))
         else Inr
           (\<lparr>max_workflow_time = pm_arg_max_workflow_time a,
             janis_memory_mb = pm_arg_janis_memory_mb a,
             email_format = pm_arg_email_format a\<rparr>,
            \<lparr>ss_mail_program = ''sendmail -t'',
             ss_intermediate_execution_dir = intermediate_execution_dir a,
             ss_container_dir = container_dir a,
             ss_queues = joined_queued,
             ss_send_job_emails = pm_arg_send_job_emails a,
             ss_catch_slurm_errors = catch_slurm_errors a,
             ss_build_instructions = build,
             ss_singularity_load_instructions = singload,
             ss_max_cores = max_cores a,
             ss_max_ram = max_ram a,
             ss_can_run_in_foreground = False,
             ss_run_in_background = True\<rparr>))"

text \<open>
  A call of \<open>PeterMacTemplate.__init__\<close> by keywords, as for \<open>PawseyTemplate\<close>. No
  parameter is required. For the parameters whose default is \<open>None\<close>, omitting the
  keyword and passing \<open>None\<close> are the same.
\<close>

record PeterMac_kw =
  pk_names :: "string list"
  pk_intermediate_execution_dir :: "string option"
  pk_container_dir :: "string option"
  pk_queues :: "str_or_list option"
  pk_singularity_version :: "string option option"
  pk_send_job_emails :: "bool option"
  pk_catch_slurm_errors :: "bool option"
  pk_singularity_build_instructions :: "string option"
  pk_max_cores :: "int option"
  pk_max_ram :: "int option"
  pk_max_workflow_time :: "int option option"
  pk_janis_memory_mb :: "int option"
  pk_email_format :: "string option"

definition PeterMacTemplate_params :: "string list" where
  "PeterMacTemplate_params =
     [''intermediate_execution_dir'', ''container_dir'', ''queues'', ''singularity_version'',
      ''send_job_emails'', ''catch_slurm_errors'', ''singularity_build_instructions'',
      ''max_cores'', ''max_ram'', ''max_workflow_time'', ''janis_memory_mb'',
      ''email_format'']"

definition PeterMacTemplate_call ::
  "string option list \<Rightarrow> PeterMac_kw \<Rightarrow> pyerror + (PeterMac_attrs \<times> Slurm_init_snake)" where
  "PeterMacTemplate_call ord kw =
     (case filter (\<lambda>k. k \<notin> set PeterMacTemplate_params) (pk_names kw) of
        k # _ \<Rightarrow> Inl (TypeError (UnexpectedKeyword k))
      | [] \<Rightarrow>
          PeterMacTemplate_init ord
            \<lparr>intermediate_execution_dir = pk_intermediate_execution_dir kw,
             container_dir = or_default (pk_container_dir kw)
               ''/config/binaries/singularity/containers_devel/janis/'',
             pm_arg_queues = or_default (pk_queues kw) (Str ''prod_med,prod''),
             singularity_version = or_default (pk_singularity_version kw) (Some ''3.4.0''),
             pm_arg_send_job_emails = or_default (pk_send_job_emails kw) False,
             catch_slurm_errors = or_default (pk_catch_slurm_errors kw) True,
             singularity_build_instructions = pk_singularity_build_instructions kw,
             max_cores = or_default (pk_max_cores kw) 40,
             max_ram = or_default (pk_max_ram kw) 256,
             pm_arg_max_workflow_time = or_default (pk_max_workflow_time kw) (Some 20100),
             pm_arg_janis_memory_mb = pk_janis_memory_mb kw,
             pm_arg_email_format = pk_email_format kw\<rparr>)"

definition PeterMac_no_kw :: PeterMac_kw where
  "PeterMac_no_kw =
     \<lparr>pk_names = [], pk_intermediate_execution_dir = None, pk_container_dir = None,
      pk_queues = None, pk_singularity_version = None, pk_send_job_emails = None,
      pk_catch_slurm_errors = None, pk_singularity_build_instructions = None,
      pk_max_cores = None, pk_max_ram = None, pk_max_workflow_time = None,
      pk_janis_memory_mb = None, pk_email_format = None\<rparr>"

subsection \<open>\<open>PeterMacDisconnectedTemplate.__init__\<close>\<close>

record PeterMacDisconnected_args =
  pmd_executionDir :: "string option"
  pmd_queues :: str_or_list
  pmd_containerDir :: string
  pmd_singularityVersion :: "string option"
  pmd_catchSlurmErrors :: bool
  pmd_sendSlurmEmails :: bool
  pmd_max_workflow_time :: "int option"

text \<open>
  The constructor calls \<open>super().__init__\<close> with seven keywords, of which
  \<open>queues\<close> alone has a field in \<open>PeterMac_kw\<close>; the values of the other six
  (among them the build instructions computed here) have no parameter to go to.
\<close>

definition PeterMacDisconnectedTemplate_init ::
  "string option list \<Rightarrow> PeterMacDisconnected_args \<Rightarrow>
   pyerror + (PeterMac_attrs \<times> Slurm_init_snake)" where
  "PeterMacDisconnectedTemplate_init ord a =
     (let buildinstructions =
            ''unset SINGULARITY_TMPDIR && docker_subbed=$(sed -e 's/[^A-Za-z0-9._-]/_/g' <<< ${docker}) '' @
            ''&& image='' @ pmd_containerDir a @
            ''/$docker_subbed.sif && singularity pull $image docker://${docker}''
      in case PeterMacTemplate_call ord
                (PeterMac_no_kw\<lparr>pk_names :=
                    [''executionDir'', ''queues'', ''containerDir'', ''singularityVersion'',
                     ''catchSlurmErrors'', ''sendSlurmEmails'', ''singularityBuildInstructions''],
                   pk_queues := Some (pmd_queues a)\<rparr>) of
           Inl e \<Rightarrow> Inl e
         | Inr (attrs, base) \<Rightarrow>
             Inr (attrs\<lparr>max_workflow_time := pmd_max_workflow_time a\<rparr>, base))"

section \<open>\<open>submit_detatched_resume\<close>: the final call\<close>

text \<open>
  The keyword arguments of a call of the base class's \<open>submit_detatched_resume\<close>
  (not part of this repository): the call is the result of the model. \<open>kwargs\<close>
  are the caller's extra keywords, with values of any type.
\<close>

record 'kv base_submit_call =
  bs_wid :: string
  bs_command :: "string list"
  bs_capture_output :: bool
  bs_config :: "config option"
  bs_logsdir :: string
  bs_kwargs :: "(string \<times> 'kv) list"

text \<open>
  \<open>PeterMacTemplate.submit_detatched_resume\<close> ends with
  \<open>super().submit_detatched_resume(wid=wid, command=newcommand, capture_output=True,
  config=config, logsdir=logsdir, **kwargs)\<close>. The interpreter refuses the call when
  \<open>kwargs\<close> repeats the keyword \<open>capture_output\<close> (the other four keywords are
  parameters of the method itself and cannot be in \<open>kwargs\<close>).
\<close>

definition PeterMac_submit_detatched_resume ::
  "PeterMac_self \<Rightarrow> string \<Rightarrow> str_or_list \<Rightarrow> string \<Rightarrow> config option \<Rightarrow>
   (string \<times> 'kv) list \<Rightarrow> pyerror + 'kv base_submit_call" where
  "PeterMac_submit_detatched_resume self wid command logsdir cfg kwargs =
     (let newcommand = PeterMac_newcommand self wid command logsdir cfg
      in if ''capture_output'' \<in> set (map fst kwargs)
         then Inl (TypeError (MultipleValues ''capture_output''))
         else Inr \<lparr>bs_wid = wid, bs_command = newcommand, bs_capture_output = True,
                   bs_config = cfg, bs_logsdir = logsdir, bs_kwargs = kwargs\<rparr>)"

text \<open>
  \<open>PawseyDisconnectedTemplate.submit_detatched_resume\<close> ends with
  \<open>super().__init__(wid=wid, command=newcommand, capture_output=True, **kwargs)\<close>:
  a call of \<open>PawseyTemplate.__init__\<close>. The caller's \<open>kwargs\<close> are given as a
  keyword call of that constructor; the three keywords of the call site come first.
\<close>

definition Pawsey_submit_detatched_resume ::
  "Pawsey_self \<Rightarrow> string \<Rightarrow> str_or_list \<Rightarrow> string \<Rightarrow> Pawsey_kw \<Rightarrow>
   pyerror + Slurm_init_camel" where
  "Pawsey_submit_detatched_resume self wid command logsdir kwargs =
     (let newcommand = Pawsey_newcommand self wid command logsdir
      in if ''capture_output'' \<in> set (kw_names kwargs)
         then Inl (TypeError (MultipleValues ''capture_output''))
         else PawseyTemplate_call
                (kwargs\<lparr>kw_names := [''wid'', ''command'', ''capture_output''] @ kw_names kwargs\<rparr>))"

text \<open>
  \<open>PeterMacDisconnectedTemplate.submit_detatched_resume\<close> ends with the same call of
  \<open>super().__init__\<close>, here \<open>PeterMacTemplate.__init__\<close>.
\<close>

definition PeterMacDisconnected_submit_detatched_resume ::
  "string option list \<Rightarrow> PeterMac_self \<Rightarrow> string \<Rightarrow> str_or_list \<Rightarrow> string \<Rightarrow> PeterMac_kw \<Rightarrow>
   pyerror + (PeterMac_attrs \<times> Slurm_init_snake)" where
  "PeterMacDisconnected_submit_detatched_resume ord self wid command logsdir kwargs =
     (let newcommand = PeterMacDisconnected_newcommand self wid command logsdir
      in if ''capture_output'' \<in> set (pk_names kwargs)
         then Inl (TypeError (MultipleValues ''capture_output''))
         else PeterMacTemplate_call ord
                (kwargs\<lparr>pk_names := [''wid'', ''command'', ''capture_output''] @ pk_names kwargs\<rparr>))"

section \<open>The run status table\<close>

text \<open>
  \<open>TaskStatus\<close> and \<open>RunModel\<close> belong to \<open>janis_assistant\<close>. A status is a
  value of any type \<open>'st\<close>, an input value one of any type \<open>'v\<close>, and the methods
  the renderer calls on them are parameters.
\<close>

record ('st, 'v) status_ops =
  is_in_final_state :: "'st \<Rightarrow> bool"
  to_hexcolor :: "'st \<Rightarrow> string"
  str_status :: "'st \<Rightarrow> string"
  str_value :: "'v \<Rightarrow> string"

datatype 'v input_value = Scalar 'v | ListValue "'v list"

record 'v run_input =
  in_tag :: string
  in_value :: "'v input_value"

record 'st job =
  job_name :: string
  job_status :: 'st

record ('st, 'v) run =
  run_inputs :: "'v run_input list"
  run_jobs :: "'st job list"

text \<open>\<open>d[k] = v\<close> on an insertion-ordered dictionary.\<close>

fun dict_set :: "('k \<times> 'w) list \<Rightarrow> 'k \<Rightarrow> 'w \<Rightarrow> ('k \<times> 'w) list" where
  "dict_set [] k v = [(k, v)]"
| "dict_set ((k', v') # kvs) k v =
     (if k' = k then (k, v) # kvs else (k', v') # dict_set kvs k v)"

definition dq :: string where
  "dq = [CHR 0x22]"

definition NL :: string where
  "NL = ''\<newline>''"

definition spaces :: "nat \<Rightarrow> string" where
  "spaces n = replicate n (CHR '' '')"

definition table_style_gen :: "(string \<times> string) list \<Rightarrow> string" where
  "table_style_gen kwargs =
     (let kwargs = dict_set (dict_set kwargs ''border'' ''1px solid black'') ''padding'' ''8px'';
          elsjoined = py_join '' '' (map (\<lambda>(k, v). k @ '': '' @ v @ '';'') kwargs)
      in ''style='' @ dq @ elsjoined @ dq)"

definition job_row :: "('st, 'v) status_ops \<Rightarrow> 'st job \<Rightarrow> string" where
  "job_row ops job =
     ''<tr>'' @ NL @
     spaces 20 @ ''<td '' @ table_style_gen [(''color'', to_hexcolor ops (job_status job))] @
       dq @ ''>'' @ job_name job @ ''</td>'' @ NL @
     spaces 20 @ ''<td '' @ table_style_gen [(''color'', to_hexcolor ops (job_status job))] @
       ''>'' @ str_status ops (job_status job) @ ''</td>'' @ NL @
     spaces 16 @ ''</tr>''"

definition seqrun_row :: "('st, 'v) status_ops \<Rightarrow> 'st \<Rightarrow> 'v \<Rightarrow> string" where
  "seqrun_row ops status s =
     ''<tr>'' @ NL @
     spaces 20 @ ''<td '' @ table_style_gen [] @ dq @ ''>'' @ str_value ops s @ ''</td>'' @ NL @
     spaces 20 @ ''<td '' @ table_style_gen [] @ ''>'' @ str_status ops status @ ''</td>'' @ NL @
     spaces 16 @ ''</tr>''"

text \<open>The table, from its opening tag on, with the title of its first column.\<close>

definition status_table :: "string \<Rightarrow> string \<Rightarrow> string \<Rightarrow> string" where
  "status_table title borderstyle rows =
     ''<table style='' @ dq @ ''border-collapse: collapse; border: 1px solid black'' @ dq @ ''>'' @ NL @
     spaces 20 @ ''<thead>'' @ NL @
     spaces 24 @ ''<tr>'' @ NL @
     spaces 28 @ ''<th '' @ borderstyle @ ''>'' @ title @ ''</th>'' @ NL @
     spaces 28 @ ''<th '' @ borderstyle @ ''>Janis</th>'' @ NL @
     spaces 24 @ ''</tr>'' @ NL @
     spaces 20 @ ''</thead>'' @ NL @
     spaces 20 @ ''<tbody>'' @ NL @
     spaces 20 @ rows @ NL @
     spaces 20 @ ''</tbody>'' @ NL @
     spaces 16 @ ''</table>''"

definition prepare_run_status_table ::
  "('st, 'v) status_ops \<Rightarrow> 'st \<Rightarrow> ('st, 'v) run \<Rightarrow> string" where
  "prepare_run_status_table ops status run =
     (let inputs = foldl (\<lambda>d i. dict_set d (in_tag i) (in_value i)) [] (run_inputs run);
          components = [];
          skip_stepids = [];
          borderstyle = table_style_gen [];
          components =
            (if is_in_final_state ops status
             then (let rows = py_join NL
                         (map (job_row ops)
                            (filter (\<lambda>job. job_name job \<notin> set skip_stepids) (run_jobs run)))
                   in components @ [NL @ spaces 16 @ status_table ''#Sample'' borderstyle rows])
             else components);
          components =
            (case map_of inputs ''seqrun'' of
               Some seqrun \<Rightarrow>
                 (let iterseqrun = (case seqrun of ListValue xs \<Rightarrow> xs | Scalar x \<Rightarrow> [x]);
                      rows = py_join NL (map (seqrun_row ops status) iterseqrun)
                  in components @ [status_table ''#Run'' borderstyle rows])
             | None \<Rightarrow> components);
          components =
            (if length components > 0 then ''<h3>Run status</h3>'' # components else components)
      in py_join NL components)"

section \<open>Example inputs\<close>

text \<open>The arguments of \<open>PeterMacTemplate\<close> when every parameter takes its default.\<close>

definition PeterMac_default_args :: PeterMac_args where
  "PeterMac_default_args =
     \<lparr>intermediate_execution_dir = None,
      container_dir = ''/config/binaries/singularity/containers_devel/janis/'',
      pm_arg_queues = Str ''prod_med,prod'',
      singularity_version = Some ''3.4.0'',
      pm_arg_send_job_emails = False,
      catch_slurm_errors = True,
      singularity_build_instructions = None,
      max_cores = 40,
      max_ram = 256,
      pm_arg_max_workflow_time = Some 20100,
      pm_arg_janis_memory_mb = None,
      pm_arg_email_format = None\<rparr>"

text \<open>Arguments for \<open>PawseyTemplate\<close>: the defaults, with a container directory.\<close>

definition Pawsey_example_args :: Pawsey_args where
  "Pawsey_example_args =
     \<lparr>containerDir = ''/group/containers'',
      executionDir = None,
      pa_queues = Str ''workq'',
      singularityVersion = Some ''3.3.0'',
      catchSlurmErrors = True,
      sendSlurmEmails = True,
      singularityBuildInstructions = ''singularity pull $image docker://${docker}'',
      pa_max_cores = 28,
      pa_max_ram = 128\<rparr>"

text \<open>A status that is final when true, and a run without a \<open>seqrun\<close> input.\<close>

definition example_ops :: "(bool, string) status_ops" where
  "example_ops =
     \<lparr>is_in_final_state = (\<lambda>s. s),
      to_hexcolor = (\<lambda>s. if s then ''#00AA00'' else ''#0000AA''),
      str_status = (\<lambda>s. if s then ''completed'' else ''running''),
      str_value = (\<lambda>v. v)\<rparr>"

definition example_run :: "(bool, string) run" where
  "example_run =
     \<lparr>run_inputs = [\<lparr>in_tag = ''fastq'', in_value = ListValue [''a.fq'', ''b.fq'']\<rparr>,
                   \<lparr>in_tag = ''reference'', in_value = Scalar ''hg38.fa''\<rparr>],
      run_jobs = [\<lparr>job_name = ''align'', job_status = False\<rparr>]\<rparr>"

section \<open>Facts about the library functions\<close>

lemma digit_char_in: "d < 10 \<Longrightarrow> digit_char d \<in> digits"
  unfolding digit_char_def digits_def by (rule nth_mem) simp

lemma str_nat_chars: "set (str_nat n) \<subseteq> digits"
proof (induction n rule: str_nat.induct)
  case (1 n)
  show ?case
  proof (cases "n < 10")
    case True
    have "str_nat n = [digit_char n]" using True by (subst str_nat.simps) simp
    then show ?thesis using digit_char_in [OF True] by simp
  next
    case False
    have "n mod 10 < 10" by simp
    then have d: "digit_char (n mod 10) \<in> digits" by (rule digit_char_in)
    have e: "str_nat n = str_nat (n div 10) @ [digit_char (n mod 10)]"
      using False by (subst str_nat.simps) simp
    from 1 [OF False] d show ?thesis unfolding e by simp
  qed
qed

lemma str_int_chars: "set (str_int i) \<subseteq> insert (CHR ''-'') digits"
  using str_nat_chars [of "nat i"] str_nat_chars [of "nat (- i)"]
  by (auto simp: str_int_def)

lemma str_int_ne_letter:
  assumes "c \<in> set s" and "c \<noteq> CHR ''-''" and "c \<notin> digits"
  shows "str_int i \<noteq> s"
proof
  assume "str_int i = s"
  with assms(1) have "c \<in> set (str_int i)" by simp
  with str_int_chars [of i] have "c \<in> insert (CHR ''-'') digits" by blast
  with assms(2,3) show False by simp
qed

lemma str_int_ne_tokens [simp]:
  "str_int i \<noteq> ''--mail-user''" "str_int i \<noteq> ''--mail-type''"
  "str_int i \<noteq> ''--mem''" "str_int i \<noteq> ''END''"
proof -
  show "str_int i \<noteq> ''--mail-user''"
    by (rule str_int_ne_letter [of "CHR ''m''"]) (simp_all add: digits_def)
  show "str_int i \<noteq> ''--mail-type''"
    by (rule str_int_ne_letter [of "CHR ''m''"]) (simp_all add: digits_def)
  show "str_int i \<noteq> ''--mem''"
    by (rule str_int_ne_letter [of "CHR ''m''"]) (simp_all add: digits_def)
  show "str_int i \<noteq> ''END''"
    by (rule str_int_ne_letter [of "CHR ''E''"]) (simp_all add: digits_def)
qed

lemma os_path_join_length: "length b \<le> length (os_path_join a b)"
  by (simp add: os_path_join_def)

lemma os_path_join_ne_short: "length s < length b \<Longrightarrow> os_path_join a b \<noteq> s"
  using os_path_join_length [of b a] by auto

lemma log_path_ne_tokens [simp]:
  "os_path_join l ''slurm.stdout'' \<noteq> ''--mail-user''"
  "os_path_join l ''slurm.stdout'' \<noteq> ''--mail-type''"
  "os_path_join l ''slurm.stdout'' \<noteq> ''--mem''"
  "os_path_join l ''slurm.stderr'' \<noteq> ''--mail-user''"
  "os_path_join l ''slurm.stderr'' \<noteq> ''--mail-type''"
  "os_path_join l ''slurm.stderr'' \<noteq> ''--mem''"
  by (rule os_path_join_ne_short, simp)+

lemma sublist_in_middle: "sublist x m \<Longrightarrow> sublist x (a @ m @ b)"
  by (metis sublist_appendI sublist_order.order_trans)

lemma sublist_py_join: "x \<in> set xs \<Longrightarrow> sublist x (py_join sep xs)"
proof (induction sep xs rule: py_join.induct)
  case (1 sep)
  then show ?case by simp
next
  case (2 sep y)
  then show ?case by simp
next
  case (3 sep y z zs)
  show ?case
  proof (cases "x = y")
    case True
    then show ?thesis by simp
  next
    case False
    with 3 have "sublist x (py_join sep (z # zs))" by simp
    then have "sublist x ((y @ sep) @ py_join sep (z # zs) @ [])" by (rule sublist_in_middle)
    then show ?thesis by simp
  qed
qed

section \<open>Facts about the argument vector\<close>

lemma join_if_list_simps [simp]:
  "join_if_list sep (Str s) = s" "join_if_list sep (StrList xs) = py_join sep xs"
  by (simp_all add: join_if_list_def)

lemma notification_email_Some:
  "notification_email cfg = Some e \<longleftrightarrow>
   e \<noteq> [] \<and> (\<exists>c n. cfg = Some c \<and> notifications c = Some n \<and> email n = Some e)"
  by (auto simp: notification_email_def split: option.splits)

lemma PeterMac_newcommand_parts:
  "PeterMac_newcommand self wid command logsdir cfg =
     [''sbatch'', ''-p'', ''janis'', ''-J'', ''janis-'' @ wid,
      ''--time'', str_int (int_or (max_workflow_time self) 14400),
      ''-o'', os_path_join logsdir ''slurm.stdout'',
      ''-e'', os_path_join logsdir ''slurm.stderr'']
     @ (if send_job_emails self
        then (case notification_email cfg of
                Some e \<Rightarrow> [''--mail-user'', e, ''--mail-type'', ''END''] | None \<Rightarrow> [])
        else [])
     @ (case janis_memory_mb self of
          Some m \<Rightarrow> if m \<noteq> 0 then [''--mem'', str_int m] else [] | None \<Rightarrow> [])
     @ [''--wrap'', join_if_list '' '' command]"
  by (simp add: PeterMac_newcommand_def Let_def split: option.splits)

lemmas token_neqs = str_int_ne_tokens [symmetric] log_path_ne_tokens [symmetric]

section \<open>The argument vector\<close>

text \<open>
  Claim C1. For every workflow id, command given as a list of tokens and logs directory,
  the argument vector that each of the three \<open>submit_detatched_resume\<close> methods
  builds is, in this order: \<open>sbatch\<close>, \<open>-p\<close>, the resolved queue, \<open>-J\<close>,
  \<open>janis-\<close> followed by the workflow id, \<open>--time\<close>, the duration, \<open>-o\<close>, the
  logs directory joined with \<open>slurm.stdout\<close>, \<open>-e\<close>, the logs directory joined
  with \<open>slurm.stderr\<close>, then (for \<open>PeterMacTemplate\<close> only) the optional tokens,
  and at the end \<open>--wrap\<close> and the tokens of the command joined with single blanks.
\<close>

theorem submit_argument_vector_order:
  "(\<exists>mid. PeterMac_newcommand pself wid (StrList command) logsdir cfg =
      [''sbatch'', ''-p'', ''janis'', ''-J'', ''janis-'' @ wid,
       ''--time'', str_int (int_or (max_workflow_time pself) 14400),
       ''-o'', os_path_join logsdir ''slurm.stdout'',
       ''-e'', os_path_join logsdir ''slurm.stderr'']
      @ mid @ [''--wrap'', py_join '' '' command])
   \<and> PeterMacDisconnected_newcommand pself wid (StrList command) logsdir =
      [''sbatch'', ''-p'', ''janis'', ''-J'', ''janis-'' @ wid,
       ''--time'', str_int (int_or (max_workflow_time pself) 1440),
       ''-o'', os_path_join logsdir ''slurm.stdout'',
       ''-e'', os_path_join logsdir ''slurm.stderr'',
       ''--wrap'', py_join '' '' command]
   \<and> Pawsey_newcommand wself wid (StrList command) logsdir =
      [''sbatch'', ''-p'', str_or (submission_queue wself) (join_if_list '', '' (queues wself)),
       ''-J'', ''janis-'' @ wid,
       ''--time'', ''4-00:00:00'',
       ''-o'', os_path_join logsdir ''slurm.stdout'',
       ''-e'', os_path_join logsdir ''slurm.stderr'',
       ''--wrap'', py_join '' '' command]"
proof (intro conjI)
  show "\<exists>mid. PeterMac_newcommand pself wid (StrList command) logsdir cfg =
      [''sbatch'', ''-p'', ''janis'', ''-J'', ''janis-'' @ wid,
       ''--time'', str_int (int_or (max_workflow_time pself) 14400),
       ''-o'', os_path_join logsdir ''slurm.stdout'',
       ''-e'', os_path_join logsdir ''slurm.stderr'']
      @ mid @ [''--wrap'', py_join '' '' command]"
    by (cases "notification_email cfg"; cases "janis_memory_mb pself")
       (simp_all add: PeterMac_newcommand_def join_if_list_def Let_def)
next
  show "PeterMacDisconnected_newcommand pself wid (StrList command) logsdir =
      [''sbatch'', ''-p'', ''janis'', ''-J'', ''janis-'' @ wid,
       ''--time'', str_int (int_or (max_workflow_time pself) 1440),
       ''-o'', os_path_join logsdir ''slurm.stdout'',
       ''-e'', os_path_join logsdir ''slurm.stderr'',
       ''--wrap'', py_join '' '' command]"
    by (simp add: PeterMacDisconnected_newcommand_def join_if_list_def)
next
  show "Pawsey_newcommand wself wid (StrList command) logsdir =
      [''sbatch'', ''-p'', str_or (submission_queue wself) (join_if_list '', '' (queues wself)),
       ''-J'', ''janis-'' @ wid,
       ''--time'', ''4-00:00:00'',
       ''-o'', os_path_join logsdir ''slurm.stdout'',
       ''-e'', os_path_join logsdir ''slurm.stderr'',
       ''--wrap'', py_join '' '' command]"
    by (simp add: Pawsey_newcommand_def join_if_list_def SUBMISSION_LENGTH_def)
qed

text \<open>The example of the specification, on the Pawsey template.\<close>

lemma submit_argument_vector_example:
  "Pawsey_newcommand \<lparr>submission_queue = Some ''longq'', queues = Str ''workq''\<rparr>
     ''abc123'' (StrList [''run.sh'', ''--flag'']) ''/logs'' =
   [''sbatch'', ''-p'', ''longq'', ''-J'', ''janis-abc123'', ''--time'', ''4-00:00:00'',
    ''-o'', ''/logs/slurm.stdout'', ''-e'', ''/logs/slurm.stderr'',
    ''--wrap'', ''run.sh --flag'']"
  by (simp add: Pawsey_newcommand_def join_if_list_def SUBMISSION_LENGTH_def str_or_def
      os_path_join_def)

text \<open>
  Claim C10. The partition that \<open>PeterMacTemplate\<close> and
  \<open>PeterMacDisconnectedTemplate\<close> pass after \<open>-p\<close> is the literal \<open>janis\<close>,
  whatever the attributes of the instance (its queues among them), the workflow id, the
  command, the logs directory and the configuration.
\<close>

theorem petermac_partition_is_janis:
  "take 3 (PeterMac_newcommand pself wid command logsdir cfg) = [''sbatch'', ''-p'', ''janis'']
   \<and> take 3 (PeterMacDisconnected_newcommand pself wid command logsdir) =
       [''sbatch'', ''-p'', ''janis'']"
  by (cases "notification_email cfg"; cases "janis_memory_mb pself")
     (simp_all add: PeterMac_newcommand_def PeterMacDisconnected_newcommand_def
        join_if_list_def Let_def)

text \<open>
  Claim C5. In the argument vector of \<open>PeterMacTemplate.submit_detatched_resume\<close>
  the four tokens \<open>--mail-user\<close>, the address, \<open>--mail-type\<close>, \<open>END\<close> occur
  (next to one another, in this order) if and only if the send-email flag of the template
  is true and a configuration is given whose notifications hold that address, which is
  not empty.
\<close>

theorem mail_tokens_iff:
  "sublist [''--mail-user'', e, ''--mail-type'', ''END'']
     (PeterMac_newcommand self wid command logsdir cfg)
   \<longleftrightarrow> send_job_emails self \<and> e \<noteq> [] \<and>
       (\<exists>c n. cfg = Some c \<and> notifications c = Some n \<and> email n = Some e)"
proof -
  have "sublist [''--mail-user'', e, ''--mail-type'', ''END'']
          (PeterMac_newcommand self wid command logsdir cfg)
        \<longleftrightarrow> send_job_emails self \<and> notification_email cfg = Some e"
    unfolding PeterMac_newcommand_parts
    by (cases "send_job_emails self"; cases "notification_email cfg";
        cases "janis_memory_mb self")
       (auto simp: sublist_Cons_right token_neqs)
  then show ?thesis by (simp only: notification_email_Some)
qed

theorem mail_tokens_iff_witness:
  "sublist [''--mail-user'', ''a@b.org'', ''--mail-type'', ''END'']
     (PeterMac_newcommand
        \<lparr>max_workflow_time = Some 20100, janis_memory_mb = None, email_format = None,
         send_job_emails = True, pm_queues = Str ''prod_med,prod''\<rparr>
        ''abc123'' (StrList [''run.sh'', ''--flag'']) ''/logs''
        (Some \<lparr>notifications = Some \<lparr>email = Some ''a@b.org''\<rparr>\<rparr>))
   \<and> \<not> sublist [''--mail-user'', ''a@b.org'', ''--mail-type'', ''END'']
     (PeterMac_newcommand
        \<lparr>max_workflow_time = Some 20100, janis_memory_mb = None, email_format = None,
         send_job_emails = False, pm_queues = Str ''prod_med,prod''\<rparr>
        ''abc123'' (StrList [''run.sh'', ''--flag'']) ''/logs''
        (Some \<lparr>notifications = Some \<lparr>email = Some ''a@b.org''\<rparr>\<rparr>))"
  by (simp add: mail_tokens_iff)

text \<open>
  Claim C6, amended. The claim says that the tokens \<open>--mem\<close> and the decimal rendering
  of the memory override occur if and only if the override is set. The method tests the
  truth value of the override, so an override of \<open>0\<close> is treated as no override.
  What holds: \<open>--mem\<close> followed by a decimal number occurs if and only if the override
  is set to a number other than zero, and the number that follows is then the rendering
  of the override.
\<close>

theorem mem_tokens_nonzero:
  "((\<exists>k. sublist [''--mem'', str_int k] (PeterMac_newcommand self wid command logsdir cfg))
     \<longleftrightarrow> (\<exists>m. janis_memory_mb self = Some m \<and> m \<noteq> 0))
   \<and> (\<forall>m. janis_memory_mb self = Some m \<and> m \<noteq> 0 \<longrightarrow>
         sublist [''--mem'', str_int m] (PeterMac_newcommand self wid command logsdir cfg))"
  unfolding PeterMac_newcommand_parts
  by (cases "send_job_emails self"; cases "notification_email cfg";
      cases "janis_memory_mb self")
     (auto simp: sublist_Cons_right token_neqs)

theorem mem_tokens_nonzero_witness:
  "janis_memory_mb \<lparr>max_workflow_time = Some 20100, janis_memory_mb = Some 8192,
       email_format = None, send_job_emails = False, pm_queues = Str ''prod_med,prod''\<rparr>
     = Some 8192 \<and> (8192::int) \<noteq> 0
   \<and> sublist [''--mem'', str_int 8192]
     (PeterMac_newcommand
        \<lparr>max_workflow_time = Some 20100, janis_memory_mb = Some 8192, email_format = None,
         send_job_emails = False, pm_queues = Str ''prod_med,prod''\<rparr>
        ''abc123'' (StrList [''run.sh'', ''--flag'']) ''/logs'' None)"
  using mem_tokens_nonzero
    [of "\<lparr>max_workflow_time = Some 20100, janis_memory_mb = Some 8192, email_format = None,
         send_job_emails = False, pm_queues = Str ''prod_med,prod''\<rparr>"
        "''abc123''" "StrList [''run.sh'', ''--flag'']" "''/logs''" None]
  by simp

text \<open>
  The claim as stated fails for an override of \<open>0\<close>: the override is set and the
  vector holds no \<open>--mem\<close> at all.
\<close>

theorem mem_tokens_zero_counterexample:
  "janis_memory_mb \<lparr>max_workflow_time = Some 20100, janis_memory_mb = Some 0,
       email_format = None, send_job_emails = False, pm_queues = Str ''prod_med,prod''\<rparr>
     \<noteq> None
   \<and> ''--mem'' \<notin> set (PeterMac_newcommand
        \<lparr>max_workflow_time = Some 20100, janis_memory_mb = Some 0, email_format = None,
         send_job_emails = False, pm_queues = Str ''prod_med,prod''\<rparr>
        ''abc123'' (StrList [''run.sh'', ''--flag'']) ''/logs'' None)"
  by (simp add: PeterMac_newcommand_parts token_neqs)

text \<open>
  Claim C7. In \<open>PawseyDisconnectedTemplate.submit_detatched_resume\<close> the argument of
  \<open>-p\<close> is the submission-queue override whenever the override is present, whatever
  the configured queues and however many they are; when the override is absent, the
  argument is the configured list of queues joined with a comma and a blank, or the
  configured queue itself when it is a string. The override is a \<open>str\<close>, and the
  method decides its presence by \<open>self.submission_queue or jq\<close>: it is present when it
  is a string that is not empty, and absent when it is \<open>None\<close> or the empty string.
\<close>

theorem pawsey_partition:
  "(\<forall>s. submission_queue self = Some s \<and> s \<noteq> [] \<longrightarrow>
       take 3 (Pawsey_newcommand self wid command logsdir) = [''sbatch'', ''-p'', s])
   \<and> (submission_queue self = None \<or> submission_queue self = Some [] \<longrightarrow>
       (\<forall>xs. queues self = StrList xs \<longrightarrow>
          take 3 (Pawsey_newcommand self wid command logsdir) =
            [''sbatch'', ''-p'', py_join '', '' xs])
       \<and> (\<forall>q. queues self = Str q \<longrightarrow>
          take 3 (Pawsey_newcommand self wid command logsdir) = [''sbatch'', ''-p'', q]))"
  by (auto simp: Pawsey_newcommand_def str_or_def)

theorem pawsey_partition_witness:
  "take 3 (Pawsey_newcommand \<lparr>submission_queue = Some ''longq'', queues = StrList [''workq'', ''debugq'']\<rparr>
      ''abc123'' (StrList [''run.sh'', ''--flag'']) ''/logs'') = [''sbatch'', ''-p'', ''longq'']
   \<and> take 3 (Pawsey_newcommand \<lparr>submission_queue = None, queues = StrList [''workq'', ''debugq'']\<rparr>
      ''abc123'' (StrList [''run.sh'', ''--flag'']) ''/logs'') = [''sbatch'', ''-p'', ''workq, debugq'']
   \<and> take 3 (Pawsey_newcommand \<lparr>submission_queue = Some [], queues = Str ''workq''\<rparr>
      ''abc123'' (StrList [''run.sh'', ''--flag'']) ''/logs'') = [''sbatch'', ''-p'', ''workq'']"
  using
    pawsey_partition [of "\<lparr>submission_queue = Some ''longq'', queues = StrList [''workq'', ''debugq'']\<rparr>"
      "''abc123''" "StrList [''run.sh'', ''--flag'']" "''/logs''"]
    pawsey_partition [of "\<lparr>submission_queue = None, queues = StrList [''workq'', ''debugq'']\<rparr>"
      "''abc123''" "StrList [''run.sh'', ''--flag'']" "''/logs''"]
    pawsey_partition [of "\<lparr>submission_queue = Some [], queues = Str ''workq''\<rparr>"
      "''abc123''" "StrList [''run.sh'', ''--flag'']" "''/logs''"]
  by simp

section \<open>The constructors\<close>

lemma PeterMacTemplate_init_raises:
  assumes "pm_arg_email_format a \<notin> expected_email_format"
  shows "PeterMacTemplate_init ord a =
     Inl (Exception
            (''Argument email_format: invalid choice: '' @
             quoted (str_opt (pm_arg_email_format a)) @
             '' (choose from '' @ py_join '', '' (map (\<lambda>x. quoted (str_opt x)) ord) @ '')''))"
  using assms by (simp add: PeterMacTemplate_init_def Let_def)

text \<open>
  Claim C3. Constructing a \<open>PeterMacTemplate\<close> with \<open>email_format\<close> equal to
  \<open>None\<close> or to \<open>molpath\<close> passes the check of the format: the constructor goes
  on to the call of the base class, with the format stored. With any other value the
  constructor raises an exception, whose message holds the rejected value between quotes
  and each of the two valid choices between quotes, in whichever order the set iterates.
\<close>

theorem email_format_check:
  "(pm_arg_email_format a = None \<or> pm_arg_email_format a = Some ''molpath'' \<longrightarrow>
      (\<exists>attrs base. PeterMacTemplate_init ord a = Inr (attrs, base)
         \<and> email_format attrs = pm_arg_email_format a))
   \<and> (pm_arg_email_format a \<noteq> None \<and> pm_arg_email_format a \<noteq> Some ''molpath''
        \<and> set ord = expected_email_format \<longrightarrow>
      (\<exists>msg. PeterMacTemplate_init ord a = Inl (Exception msg)
         \<and> sublist (quoted (str_opt (pm_arg_email_format a))) msg
         \<and> sublist (quoted ''None'') msg \<and> sublist (quoted ''molpath'') msg))"
proof (intro conjI impI)
  assume "pm_arg_email_format a = None \<or> pm_arg_email_format a = Some ''molpath''"
  then have "pm_arg_email_format a \<in> expected_email_format"
    by (auto simp: expected_email_format_def)
  then show "\<exists>attrs base. PeterMacTemplate_init ord a = Inr (attrs, base)
         \<and> email_format attrs = pm_arg_email_format a"
    by (simp add: PeterMacTemplate_init_def Let_def)
next
  assume h: "pm_arg_email_format a \<noteq> None \<and> pm_arg_email_format a \<noteq> Some ''molpath''
        \<and> set ord = expected_email_format"
  then have bad: "pm_arg_email_format a \<notin> expected_email_format"
    by (simp add: expected_email_format_def)
  let ?valid = "py_join '', '' (map (\<lambda>x. quoted (str_opt x)) ord)"
  let ?msg = "''Argument email_format: invalid choice: '' @
             quoted (str_opt (pm_arg_email_format a)) @ '' (choose from '' @ ?valid @ '')''"
  from h have "None \<in> set ord" "Some ''molpath'' \<in> set ord"
    by (simp_all add: expected_email_format_def)
  then have "quoted (str_opt None) \<in> set (map (\<lambda>x. quoted (str_opt x)) ord)"
    and "quoted (str_opt (Some ''molpath'')) \<in> set (map (\<lambda>x. quoted (str_opt x)) ord)"
    by (simp_all only: set_map image_eqI)
  then have "sublist (quoted ''None'') ?valid" "sublist (quoted ''molpath'') ?valid"
    by (simp_all add: str_opt_def sublist_py_join del: set_map)
  then have v: "sublist (quoted ''None'') ?msg" "sublist (quoted ''molpath'') ?msg"
    using sublist_in_middle
      [of _ ?valid "''Argument email_format: invalid choice: '' @
             quoted (str_opt (pm_arg_email_format a)) @ '' (choose from ''" "'')''"]
    by simp_all
  have n: "sublist (quoted (str_opt (pm_arg_email_format a))) ?msg"
    by (rule sublist_appendI)
  from PeterMacTemplate_init_raises [OF bad, of ord] v n
  show "\<exists>msg. PeterMacTemplate_init ord a = Inl (Exception msg)
         \<and> sublist (quoted (str_opt (pm_arg_email_format a))) msg
         \<and> sublist (quoted ''None'') msg \<and> sublist (quoted ''molpath'') msg"
    by blast
qed

theorem email_format_check_witness:
  "(\<exists>attrs base.
      PeterMacTemplate_init [None, Some ''molpath'']
        (PeterMac_default_args\<lparr>pm_arg_email_format := Some ''molpath''\<rparr>) = Inr (attrs, base)
      \<and> email_format attrs = Some ''molpath'')
   \<and> (\<exists>msg.
      PeterMacTemplate_init [Some ''molpath'', None]
        (PeterMac_default_args\<lparr>pm_arg_email_format := Some ''html''\<rparr>) = Inl (Exception msg)
      \<and> sublist (quoted ''html'') msg
      \<and> sublist (quoted ''None'') msg \<and> sublist (quoted ''molpath'') msg)"
  using
    email_format_check [of "PeterMac_default_args\<lparr>pm_arg_email_format := Some ''molpath''\<rparr>"
      "[None, Some ''molpath'']"]
    email_format_check [of "PeterMac_default_args\<lparr>pm_arg_email_format := Some ''html''\<rparr>"
      "[Some ''molpath'', None]"]
  by (simp add: expected_email_format_def str_opt_def insert_commute)

text \<open>The message for the format \<open>html\<close>, when the set iterates \<open>None\<close> first.\<close>

lemma email_format_message_example:
  "PeterMacTemplate_init [None, Some ''molpath'']
     (PeterMac_default_args\<lparr>pm_arg_email_format := Some ''html''\<rparr>) =
   Inl (Exception
     (''Argument email_format: invalid choice: 'html' (choose from 'None', 'molpath'' @
      [CHR 0x27] @ '')''))"
  by (simp add: PeterMacTemplate_init_def expected_email_format_def PeterMac_default_args_def
      quoted_def str_opt_def)

text \<open>
  Claim C8. The module-load instruction that \<open>PawseyTemplate\<close> and
  \<open>PeterMacTemplate\<close> forward to the base class is \<open>module load singularity/\<close>
  followed by the version when the version is a non-empty string, and
  \<open>module load singularity\<close> when the version is \<open>None\<close>. For
  \<open>PeterMacTemplate\<close> this is about the constructions that pass the check of the
  e-mail format: the others forward nothing.
\<close>

theorem module_load_instruction:
  "(\<forall>v. singularityVersion a = Some v \<and> v \<noteq> [] \<longrightarrow>
       sc_singularityLoadInstructions (PawseyTemplate_init a) = ''module load singularity/'' @ v)
   \<and> (singularityVersion a = None \<longrightarrow>
       sc_singularityLoadInstructions (PawseyTemplate_init a) = ''module load singularity'')
   \<and> (\<forall>attrs base. PeterMacTemplate_init ord b = Inr (attrs, base) \<longrightarrow>
        (\<forall>v. singularity_version b = Some v \<and> v \<noteq> [] \<longrightarrow>
           ss_singularity_load_instructions base = ''module load singularity/'' @ v)
        \<and> (singularity_version b = None \<longrightarrow>
           ss_singularity_load_instructions base = ''module load singularity''))"
  by (auto simp: PawseyTemplate_init_def PeterMacTemplate_init_def Let_def split: if_splits)

theorem module_load_instruction_witness:
  "sc_singularityLoadInstructions
     (PawseyTemplate_init (Pawsey_example_args\<lparr>singularityVersion := Some ''3.4.0''\<rparr>))
     = ''module load singularity/3.4.0''
   \<and> sc_singularityLoadInstructions
     (PawseyTemplate_init (Pawsey_example_args\<lparr>singularityVersion := None\<rparr>))
     = ''module load singularity''
   \<and> (\<exists>attrs base.
        PeterMacTemplate_init [None, Some ''molpath''] PeterMac_default_args = Inr (attrs, base)
        \<and> ss_singularity_load_instructions base = ''module load singularity/3.4.0'')
   \<and> (\<exists>attrs base.
        PeterMacTemplate_init [None, Some ''molpath'']
          (PeterMac_default_args\<lparr>singularity_version := None\<rparr>) = Inr (attrs, base)
        \<and> ss_singularity_load_instructions base = ''module load singularity'')"
proof -
  obtain attrs base where
    r: "PeterMacTemplate_init [None, Some ''molpath''] PeterMac_default_args = Inr (attrs, base)"
    by (simp add: PeterMacTemplate_init_def expected_email_format_def PeterMac_default_args_def
        Let_def)
  obtain attrs' base' where
    r': "PeterMacTemplate_init [None, Some ''molpath'']
           (PeterMac_default_args\<lparr>singularity_version := None\<rparr>) = Inr (attrs', base')"
    by (simp add: PeterMacTemplate_init_def expected_email_format_def PeterMac_default_args_def
        Let_def)
  have v: "singularity_version PeterMac_default_args = Some ''3.4.0''"
    by (simp add: PeterMac_default_args_def)
  from module_load_instruction
         [of "Pawsey_example_args\<lparr>singularityVersion := Some ''3.4.0''\<rparr>"
             "[None, Some ''molpath'']" PeterMac_default_args] r v
  have 1: "sc_singularityLoadInstructions
     (PawseyTemplate_init (Pawsey_example_args\<lparr>singularityVersion := Some ''3.4.0''\<rparr>))
     = ''module load singularity/3.4.0''"
    and 3: "ss_singularity_load_instructions base = ''module load singularity/3.4.0''"
    by simp_all
  from module_load_instruction
         [of "Pawsey_example_args\<lparr>singularityVersion := None\<rparr>"
             "[None, Some ''molpath'']" "PeterMac_default_args\<lparr>singularity_version := None\<rparr>"] r'
  have 2: "sc_singularityLoadInstructions
     (PawseyTemplate_init (Pawsey_example_args\<lparr>singularityVersion := None\<rparr>))
     = ''module load singularity''"
    and 4: "ss_singularity_load_instructions base' = ''module load singularity''"
    by simp_all
  from 1 2 3 4 r r' show ?thesis by blast
qed

text \<open>
  Claim C4. Whatever its arguments, the constructor of \<open>PawseyDisconnectedTemplate\<close>
  raises a \<open>TypeError\<close>, because it calls \<open>PawseyTemplate.__init__\<close> with
  \<open>executionDir\<close> alone and so without the required \<open>containerDir\<close>; and the
  constructor of \<open>PeterMacDisconnectedTemplate\<close> raises a \<open>TypeError\<close>, because
  it calls \<open>PeterMacTemplate.__init__\<close> with keywords that are not among its
  parameters, \<open>executionDir\<close> the first of them.
\<close>

theorem disconnected_constructors_raise:
  "PawseyDisconnectedTemplate_init a = Inl (TypeError (MissingArgument ''containerDir''))
   \<and> PeterMacDisconnectedTemplate_init ord b =
       Inl (TypeError (UnexpectedKeyword ''executionDir''))
   \<and> ''containerDir'' \<in> set PawseyTemplate_params
   \<and> set [''executionDir'', ''containerDir'', ''singularityVersion'', ''catchSlurmErrors'',
           ''sendSlurmEmails'', ''singularityBuildInstructions'']
       \<inter> set PeterMacTemplate_params = {}"
  by (simp add: PawseyDisconnectedTemplate_init_def PawseyTemplate_call_def
      PawseyTemplate_params_def Pawsey_no_kw_def
      PeterMacDisconnectedTemplate_init_def PeterMacTemplate_call_def
      PeterMacTemplate_params_def PeterMac_no_kw_def)

section \<open>The final call of \<open>submit_detatched_resume\<close>\<close>

text \<open>
  Claim C2. The claim is that each of the three methods hands the vector to the
  submission method of the base class, with \<open>capture_output=True\<close>.
  \<open>PeterMacTemplate\<close> does so (\<open>PeterMac_submit_delegates\<close> below). The two
  disconnected templates call \<open>super().__init__\<close> instead, the constructor of their
  parent class, which has no parameter \<open>wid\<close>: the call raises a \<open>TypeError\<close> and
  nothing is submitted. The evaluation at the input of the specification's example:
\<close>

theorem disconnected_submit_calls_constructor:
  "Pawsey_submit_detatched_resume
     \<lparr>submission_queue = Some ''longq'', queues = Str ''workq''\<rparr>
     ''abc123'' (StrList [''run.sh'', ''--flag'']) ''/logs'' Pawsey_no_kw
     = Inl (TypeError (UnexpectedKeyword ''wid''))
   \<and> PeterMacDisconnected_submit_detatched_resume [None, Some ''molpath'']
     \<lparr>max_workflow_time = Some 14400, janis_memory_mb = None, email_format = None,
      send_job_emails = False, pm_queues = Str ''prod_med,prod''\<rparr>
     ''abc123'' (StrList [''run.sh'', ''--flag'']) ''/logs'' PeterMac_no_kw
     = Inl (TypeError (UnexpectedKeyword ''wid''))"
  by (simp add: Pawsey_submit_detatched_resume_def PawseyTemplate_call_def
      PawseyTemplate_params_def Pawsey_no_kw_def
      PeterMacDisconnected_submit_detatched_resume_def PeterMacTemplate_call_def
      PeterMacTemplate_params_def PeterMac_no_kw_def)

text \<open>The same for every input of the two disconnected templates.\<close>

lemma disconnected_submit_never_delegates:
  "(\<exists>t. Pawsey_submit_detatched_resume wself wid command logsdir kwargs = Inl (TypeError t))
   \<and> (\<exists>t. PeterMacDisconnected_submit_detatched_resume ord pself wid command logsdir pkwargs
          = Inl (TypeError t))"
  by (simp add: Pawsey_submit_detatched_resume_def PawseyTemplate_call_def
      PawseyTemplate_params_def
      PeterMacDisconnected_submit_detatched_resume_def PeterMacTemplate_call_def
      PeterMacTemplate_params_def)

text \<open>
  \<open>PeterMacTemplate\<close> delegates, unless the caller's own keywords repeat
  \<open>capture_output\<close>.
\<close>

lemma PeterMac_submit_delegates:
  "''capture_output'' \<notin> fst ` set kwargs \<Longrightarrow>
   \<exists>call. PeterMac_submit_detatched_resume pself wid command logsdir cfg kwargs = Inr call
     \<and> bs_capture_output call
     \<and> bs_command call = PeterMac_newcommand pself wid command logsdir cfg
     \<and> bs_wid call = wid \<and> bs_logsdir call = logsdir \<and> bs_config call = cfg"
  by (simp add: PeterMac_submit_detatched_resume_def)

section \<open>The run status table\<close>

lemma dict_set_keys: "fst ` set (dict_set d k v) = insert k (fst ` set d)"
  by (induction d k v rule: dict_set.induct) auto

lemma inputs_dict_keys:
  "fst ` set (foldl (\<lambda>d i. dict_set d (in_tag i) (in_value i)) d xs) =
   fst ` set d \<union> in_tag ` set xs"
  by (induction xs arbitrary: d) (auto simp: dict_set_keys)

lemma inputs_lookup_None:
  assumes "k \<notin> in_tag ` set xs"
  shows "map_of (foldl (\<lambda>d i. dict_set d (in_tag i) (in_value i)) [] xs) k = None"
proof -
  have "k \<notin> fst ` set (foldl (\<lambda>d i. dict_set d (in_tag i) (in_value i)) [] xs)"
    using assms by (simp add: inputs_dict_keys)
  then show ?thesis by (simp add: map_of_eq_None_iff)
qed

text \<open>
  Claim C9. For a status that is not in a final state and a run none of whose inputs has
  the tag \<open>seqrun\<close>, \<open>prepare_run_status_table\<close> returns the empty string.
\<close>

theorem no_table_empty_string:
  assumes "\<not> is_in_final_state ops status"
    and "''seqrun'' \<notin> in_tag ` set (run_inputs run)"
  shows "prepare_run_status_table ops status run = []"
proof -
  from assms(2) have "map_of (foldl (\<lambda>d i. dict_set d (in_tag i) (in_value i)) [] (run_inputs run))
               ''seqrun'' = None"
    by (rule inputs_lookup_None)
  with assms(1) show ?thesis by (simp add: prepare_run_status_table_def Let_def)
qed

theorem no_table_empty_string_witness:
  "\<not> is_in_final_state example_ops False
   \<and> ''seqrun'' \<notin> in_tag ` set (run_inputs example_run)
   \<and> prepare_run_status_table example_ops False example_run = []"
proof -
  have 1: "\<not> is_in_final_state example_ops False" by (simp add: example_ops_def)
  have 2: "''seqrun'' \<notin> in_tag ` set (run_inputs example_run)"
    by (simp add: example_run_def)
  from 1 2 no_table_empty_string [OF 1 2] show ?thesis by blast
qed

end
